theory Spec2Isabelle
  imports Complex_Main "HOL-Library.Sublist"
begin

section \<open>Exceptions and the file system\<close>

text \<open>
  The Python modules \<^verbatim>\<open>app/jsdbk.py\<close> and \<^verbatim>\<open>app/app.py\<close> call into librosa, numpy,
  pickle, subprocess and the operating system. Those libraries are not part of the
  repository, so every call into them is a field of an environment record; an exception
  raised by such a call is a value \<open>LibExn cls msg\<close> (the Python class name and
  \<^verbatim>\<open>str(e)\<close>). The exceptions the repository raises itself are the other constructors
  of \<open>exn\<close>. Floating-point numbers are idealised as reals.
\<close>

datatype lib_exn = LibExn (cls: string) (msg: string)

datatype exn =
    Lib lib_exn
  | AudioDecodeError string lib_exn
  | ModelLoadError string
  | PyTypeError string
  | PyIndexError string
  | PyAttributeError string
  | PyValueError string
  | PyZeroDivisionError string
  | HTTPException nat string

fun str_exn :: "exn \<Rightarrow> string" where
  "str_exn (Lib e) = msg e"
| "str_exn (AudioDecodeError m c) = m"
| "str_exn (ModelLoadError m) = m"
| "str_exn (PyTypeError m) = m"
| "str_exn (PyIndexError m) = m"
| "str_exn (PyAttributeError m) = m"
| "str_exn (PyValueError m) = m"
| "str_exn (PyZeroDivisionError m) = m"
| "str_exn (HTTPException st d) = d"

type_synonym bytes = "nat list"
type_synonym fs = "string \<rightharpoonup> bytes"
type_synonym signal = "real list \<times> nat"

section \<open>load_audio (jsdbk.py, lines 69-100)\<close>

text \<open>
  \<open>librosa_load\<close> is \<^verbatim>\<open>librosa.load(path, duration=None, sr=22050, mono=True)\<close> applied to
  the content of the file (\<open>None\<close> when the path does not exist); it returns the samples,
  the returned rate being the requested 22050. \<open>which_ffmpeg\<close> is
  \<^verbatim>\<open>shutil.which("ffmpeg")\<close>, \<open>mkstemp\<close> the outcome of \<^verbatim>\<open>tempfile.mkstemp(suffix=".wav")\<close>
  (the new path, or the message of the OSError), and \<open>check_call\<close> runs the given command
  line on the file system and yields its outcome together with what it leaves at the
  output path.
\<close>

record audio_env =
  librosa_load :: "bytes option \<Rightarrow> lib_exn + real list"
  which_ffmpeg :: bool
  mkstemp :: "string + string"
  check_call :: "string list \<Rightarrow> fs \<Rightarrow> (lib_exn + unit) \<times> bytes option"

definition SR :: nat where
  "SR = 22050"

definition ffmpeg_argv :: "string \<Rightarrow> string \<Rightarrow> string list" where
  "ffmpeg_argv audio_path tmpwav =
     [''ffmpeg'', ''-y'', ''-i'', audio_path, ''-ar'', ''22050'', ''-ac'', ''1'', tmpwav]"

text \<open>The file system after \<^verbatim>\<open>mkstemp\<close> has created \<open>tmpwav\<close> and ffmpeg has run.\<close>

definition after_mkstemp :: "fs \<Rightarrow> string \<Rightarrow> fs" where
  "after_mkstemp files tmpwav = files(tmpwav \<mapsto> [])"

definition after_ffmpeg :: "audio_env \<Rightarrow> fs \<Rightarrow> string \<Rightarrow> string \<Rightarrow> fs" where
  "after_ffmpeg env files audio_path tmpwav =
     (let fs1 = after_mkstemp files tmpwav
      in fs1(tmpwav := snd (check_call env (ffmpeg_argv audio_path tmpwav) fs1)))"

definition load_audio :: "audio_env \<Rightarrow> fs \<Rightarrow> string \<Rightarrow> (exn + signal) \<times> fs" where
  "load_audio env files audio_path =
     (case librosa_load env (files audio_path) of
        Inr y \<Rightarrow> (Inr (y, SR), files)
      | Inl e \<Rightarrow>
          if which_ffmpeg env then
            (case mkstemp env of
               Inl m \<Rightarrow> (Inl (Lib (LibExn ''OSError'' m)), files)
             | Inr tmpwav \<Rightarrow>
                 let fs1 = after_mkstemp files tmpwav;
                     fs2 = after_ffmpeg env files audio_path tmpwav;
                     res = (case fst (check_call env (ffmpeg_argv audio_path tmpwav) fs1) of
                              Inl e2 \<Rightarrow>
                                Inl (AudioDecodeError
                                  (''Audio decode failed after ffmpeg conversion: '' @ msg e2) e2)
                            | Inr u \<Rightarrow>
                                (case librosa_load env (fs2 tmpwav) of
                                   Inl e2 \<Rightarrow>
                                     Inl (AudioDecodeError
                                       (''Audio decode failed after ffmpeg conversion: '' @ msg e2) e2)
                                 | Inr y \<Rightarrow> Inr (y, SR)))
                 in (res, if fs2 tmpwav \<noteq> None then fs2(tmpwav := None) else fs2))
          else
            (Inl (AudioDecodeError
               ''Audio decode failed: no suitable backend found (install ffmpeg)'' e), files))"

text \<open>
  The conditions the decoder's contract speaks about. The conversion fails when the
  temporary file was created and the ffmpeg run raises; the retry decode fails when the
  temporary file was created, the ffmpeg run succeeded, and the decode of the temporary
  file (the second \<^verbatim>\<open>librosa.load\<close>, which only runs then) raises.
\<close>

definition primary_fails :: "audio_env \<Rightarrow> fs \<Rightarrow> string \<Rightarrow> bool" where
  "primary_fails env files audio_path = isl (librosa_load env (files audio_path))"

definition transcode_fails :: "audio_env \<Rightarrow> fs \<Rightarrow> string \<Rightarrow> bool" where
  "transcode_fails env files audio_path =
     (case mkstemp env of
        Inl m \<Rightarrow> False
      | Inr tmpwav \<Rightarrow>
          isl (fst (check_call env (ffmpeg_argv audio_path tmpwav) (after_mkstemp files tmpwav))))"

definition retry_decode_fails :: "audio_env \<Rightarrow> fs \<Rightarrow> string \<Rightarrow> bool" where
  "retry_decode_fails env files audio_path =
     (case mkstemp env of
        Inl m \<Rightarrow> False
      | Inr tmpwav \<Rightarrow>
          \<not> isl (fst (check_call env (ffmpeg_argv audio_path tmpwav)
                        (after_mkstemp files tmpwav))) \<and>
          isl (librosa_load env (after_ffmpeg env files audio_path tmpwav tmpwav)))"

fun is_decode_error :: "exn + 'a \<Rightarrow> bool" where
  "is_decode_error (Inl (AudioDecodeError m c)) = True"
| "is_decode_error r = False"

text \<open>Concrete environments used to run the decoder.\<close>

definition demo_fs :: fs where
  "demo_fs = [''song.mp3'' \<mapsto> [0]]"

text \<open>
  Decoding fails on a missing file, on an empty file and on the single byte 0, and
  succeeds otherwise.
\<close>

definition demo_decode :: "bytes option \<Rightarrow> lib_exn + real list" where
  "demo_decode c =
     (if c = None \<or> c = Some [] \<or> c = Some [0]
      then Inl (LibExn ''NoBackendError'' ''no backend'')
      else Inr [1, 2])"

definition env_ffmpeg_exits_nonzero :: audio_env where
  "env_ffmpeg_exits_nonzero =
     \<lparr> librosa_load = demo_decode, which_ffmpeg = True, mkstemp = Inr ''/tmp/t.wav'',
       check_call = (\<lambda>argv files.
          (Inl (LibExn ''CalledProcessError'' ''returned non-zero exit status 1''), Some [])) \<rparr>"

definition env_ffmpeg_ok :: audio_env where
  "env_ffmpeg_ok =
     \<lparr> librosa_load = demo_decode, which_ffmpeg = True, mkstemp = Inr ''/tmp/t.wav'',
       check_call = (\<lambda>argv files. (Inr (), Some [7])) \<rparr>"

section \<open>Feature extraction (jsdbk.py, lines 103-166)\<close>

text \<open>
  The signal-processing backend. Each field is the librosa or numpy function of the same
  name; keyword arguments that some call sites pass and others leave to the library's
  default are \<open>option\<close> arguments (\<open>None\<close> where the call site passes nothing). A
  two-dimensional array is a list of rows; \<^verbatim>\<open>np.mean\<close> and \<^verbatim>\<open>np.std\<close> reduce over all
  entries, so they take the flattened array. \<^verbatim>\<open>librosa.frames_to_time\<close> converts an array
  of frame indices entry by entry (\<^verbatim>\<open>frames * hop_length / sr\<close>) and does not raise, so the
  backend gives the conversion of one frame index.
\<close>

type_synonym matrix = "real list list"

record librosa =
  beat_track :: "real list \<Rightarrow> nat \<Rightarrow> lib_exn + real \<times> nat list"
  rms :: "real list \<Rightarrow> nat option \<Rightarrow> nat option \<Rightarrow> lib_exn + matrix"
  spectral_centroid :: "real list \<Rightarrow> nat \<Rightarrow> lib_exn + matrix"
  zero_crossing_rate :: "real list \<Rightarrow> nat option \<Rightarrow> nat option \<Rightarrow> lib_exn + matrix"
  spectral_rolloff :: "real list \<Rightarrow> nat \<Rightarrow> real option \<Rightarrow> lib_exn + matrix"
  mfcc :: "real list \<Rightarrow> nat \<Rightarrow> nat \<Rightarrow> nat option \<Rightarrow> nat option \<Rightarrow> lib_exn + matrix"
  chroma_stft :: "real list \<Rightarrow> nat \<Rightarrow> nat option \<Rightarrow> nat option \<Rightarrow> lib_exn + matrix"
  onset_strength :: "real list \<Rightarrow> nat \<Rightarrow> lib_exn + real list"
  spectral_contrast :: "real list \<Rightarrow> nat \<Rightarrow> nat option \<Rightarrow> nat option \<Rightarrow> lib_exn + matrix"
  onset_detect :: "real list \<Rightarrow> nat \<Rightarrow> lib_exn + nat list"
  spectral_bandwidth :: "real list \<Rightarrow> nat \<Rightarrow> lib_exn + matrix"
  frame_to_time :: "nat \<Rightarrow> nat \<Rightarrow> real"
  np_mean :: "real list \<Rightarrow> real"
  np_std :: "real list \<Rightarrow> real"

definition frames_to_time :: "librosa \<Rightarrow> nat list \<Rightarrow> nat \<Rightarrow> real list" where
  "frames_to_time lib frames sr = map (\<lambda>f. frame_to_time lib f sr) frames"

text \<open>Sequencing of calls that may raise: the first exception ends the computation.\<close>

definition lib_bind :: "lib_exn + 'a \<Rightarrow> ('a \<Rightarrow> exn + 'b) \<Rightarrow> exn + 'b" where
  "lib_bind r f = (case r of Inl e \<Rightarrow> Inl (Lib e) | Inr v \<Rightarrow> f v)"

definition exn_bind :: "exn + 'a \<Rightarrow> ('a \<Rightarrow> exn + 'b) \<Rightarrow> exn + 'b" where
  "exn_bind r f = (case r of Inl e \<Rightarrow> Inl e | Inr v \<Rightarrow> f v)"

text \<open>Indexing \<^verbatim>\<open>a[i]\<close> with a non-negative index: IndexError out of range.\<close>

definition getitem :: "'a list \<Rightarrow> nat \<Rightarrow> exn + 'a" where
  "getitem xs i =
     (if i < length xs then Inr (xs ! i) else Inl (PyIndexError ''index out of bounds''))"

text \<open>
  \<^verbatim>\<open>len(y) / sr\<close> is evaluated before anything else and raises on a zero rate. The result
  is the array after \<^verbatim>\<open>reshape(1, -1)\<close>: one row of fifteen values.
\<close>

definition extract_features_from_audio :: "librosa \<Rightarrow> real list \<Rightarrow> nat \<Rightarrow> exn + matrix" where
  "extract_features_from_audio lib y sr =
     (if sr = 0 then Inl (PyZeroDivisionError ''division by zero'')
      else
        lib_bind (beat_track lib y sr) (\<lambda>(tempo, beats).
        lib_bind (rms lib y (Some 2048) (Some 512)) (\<lambda>rms_v.
        lib_bind (spectral_centroid lib y sr) (\<lambda>centroid.
        lib_bind (zero_crossing_rate lib y (Some 2048) (Some 512)) (\<lambda>zcr.
        lib_bind (spectral_rolloff lib y sr (Some 0.85)) (\<lambda>rolloff.
        lib_bind (mfcc lib y sr 13 (Some 2048) (Some 512)) (\<lambda>mfccs.
        lib_bind (chroma_stft lib y sr (Some 2048) (Some 512)) (\<lambda>chroma.
        lib_bind (onset_strength lib y sr) (\<lambda>onset_env.
        lib_bind (spectral_contrast lib y sr (Some 2048) (Some 512)) (\<lambda>contrast.
        exn_bind (getitem mfccs 1) (\<lambda>mfccs1.
        exn_bind (getitem mfccs 2) (\<lambda>mfccs2.
          Inr [[ tempo,
                 np_mean lib (concat rms_v),
                 np_mean lib (concat centroid),
                 np_mean lib (concat zcr),
                 np_mean lib (concat rolloff),
                 np_mean lib mfccs1,
                 np_mean lib mfccs2,
                 np_mean lib (concat chroma),
                 np_mean lib onset_env,
                 np_mean lib (concat contrast),
                 np_std lib onset_env,
                 np_std lib (concat rms_v),
                 np_std lib (concat rolloff),
                 np_std lib (concat chroma),
                 np_std lib onset_env ]]))))))))))))"

section \<open>The second extractor (smart_playlist_enhanced_audio.py, lines 37-104)\<close>

text \<open>
  \<^verbatim>\<open>extract_anti_overfitting_features\<close> loads the file itself with
  \<^verbatim>\<open>librosa.load(audio_path)\<close>, whose defaults are the rate 22050 and a mono downmix, and
  turns every exception into the result \<^verbatim>\<open>None\<close>.
\<close>

definition anti_overfitting_body :: "librosa \<Rightarrow> real list \<Rightarrow> nat \<Rightarrow> exn + real list" where
  "anti_overfitting_body lib y sr =
     lib_bind (beat_track lib y sr) (\<lambda>(tempo, beats).
     lib_bind (rms lib y None None) (\<lambda>rms_v.
     lib_bind (spectral_centroid lib y sr) (\<lambda>centroids.
     lib_bind (zero_crossing_rate lib y None None) (\<lambda>zcr.
     lib_bind (spectral_rolloff lib y sr None) (\<lambda>rolloff.
     lib_bind (mfcc lib y sr 13 None None) (\<lambda>mfccs.
     exn_bind (getitem mfccs 0) (\<lambda>mfccs0.
     exn_bind (getitem mfccs 1) (\<lambda>mfccs1.
     lib_bind (chroma_stft lib y sr None None) (\<lambda>chroma.
     lib_bind (onset_detect lib y sr) (\<lambda>onset_frames.
     lib_bind (spectral_contrast lib y sr None None) (\<lambda>contrast.
       Inr [ tempo,
             np_mean lib (concat rms_v),
             np_mean lib (concat centroids),
             np_mean lib (concat zcr),
             np_mean lib (concat rolloff),
             np_mean lib mfccs0,
             np_mean lib mfccs1,
             np_mean lib (concat chroma),
             (if length onset_frames > 0 then real (length onset_frames) else 0),
             np_mean lib (concat contrast),
             (if length beats > 1 then np_std lib (map real beats) else 0),
             np_std lib (concat rms_v),
             np_std lib (concat rolloff),
             np_std lib (concat chroma),
             (if length beats > 1 then np_std lib (map real beats) else 0) ])))))))))))"

definition extract_anti_overfitting_features ::
    "audio_env \<Rightarrow> librosa \<Rightarrow> fs \<Rightarrow> string \<Rightarrow> real list option" where
  "extract_anti_overfitting_features env lib files audio_path =
     (case librosa_load env (files audio_path) of
        Inl e \<Rightarrow> None
      | Inr y \<Rightarrow>
          (case anti_overfitting_body lib y SR of Inl e \<Rightarrow> None | Inr v \<Rightarrow> Some v))"

section \<open>Loading the model bundle (jsdbk.py, lines 24-66)\<close>

text \<open>
  What \<^verbatim>\<open>pickle.load\<close> can hand back for a label field: \<^verbatim>\<open>None\<close> (also when the key is
  absent, since the code reads it with \<^verbatim>\<open>.get\<close>), a string, any other iterable (each entry
  given by what \<^verbatim>\<open>str\<close> returns for it), or an object that is not iterable.
\<close>

datatype pyval = PyNone | PyStr string | PySeq "string list" | PyOther

record classifier =
  clf_classes :: "string list option"
  clf_predict :: "matrix \<Rightarrow> lib_exn + string list"
  clf_predict_proba :: "matrix \<Rightarrow> lib_exn + matrix"

record scaler =
  scaler_transform :: "matrix \<Rightarrow> lib_exn + matrix"

record model_bundle =
  b_model :: "classifier option"
  b_scaler :: "scaler option"
  b_classes :: pyval
  b_moods :: pyval

datatype pickled = PickledDict model_bundle | PickledOther

datatype log_level = INFO | WARNING | ERROR

type_synonym log = "(log_level \<times> string) list"

record module_state =
  classifier :: "classifier option"
  scaler :: "scaler option"
  MOODS :: pyval

definition MODEL_PATH :: "string \<Rightarrow> string" where
  "MODEL_PATH module_dir = module_dir @ ''/models/anti_overfitting_mood_classifier.pkl''"

definition default_moods :: "string list" where
  "default_moods = [''calm'', ''energetic'', ''happy'', ''sad'']"

text \<open>The test \<^verbatim>\<open>MOODS is None or (isinstance(MOODS, list) and len(MOODS) == 0)\<close>.\<close>

definition none_or_empty_list :: "pyval \<Rightarrow> bool" where
  "none_or_empty_list v = (v = PyNone \<or> v = PySeq [])"

text \<open>Lines 33-40: the bundle's own fields. Only \<^verbatim>\<open>None\<close> sends the code on to "moods".\<close>

definition moods_from_bundle :: "model_bundle \<Rightarrow> pyval" where
  "moods_from_bundle b = (if b_classes b = PyNone then b_moods b else b_classes b)"

text \<open>Lines 43-45: \<^verbatim>\<open>getattr(classifier, "classes_", None)\<close>, also for a missing classifier.\<close>

definition moods_from_classifier :: "classifier option \<Rightarrow> pyval" where
  "moods_from_classifier c =
     (case c of
        None \<Rightarrow> PyNone
      | Some clf \<Rightarrow> (case clf_classes clf of None \<Rightarrow> PyNone | Some cs \<Rightarrow> PySeq cs))"

definition resolve_moods :: "model_bundle \<Rightarrow> pyval \<times> log" where
  "resolve_moods b =
     (let m1 = moods_from_bundle b;
          m2 = (if none_or_empty_list m1 then moods_from_classifier (b_model b) else m1)
      in if none_or_empty_list m2
         then (PySeq default_moods,
               [(WARNING, ''Model moods not found in bundle; falling back to default labels %s''),
                (INFO, ''Loaded moods: %s'')])
         else (m2, [(INFO, ''Loaded moods: %s'')]))"

text \<open>
  Module initialisation: open and unpickle the artifact, read the fields, resolve the
  labels. \<open>pickle_load\<close> is \<^verbatim>\<open>pickle.load\<close> on the file's content.
\<close>

definition load_module ::
    "(bytes \<Rightarrow> lib_exn + pickled) \<Rightarrow> fs \<Rightarrow> string \<Rightarrow> exn + module_state \<times> log" where
  "load_module pickle_load files module_dir =
     (case files (MODEL_PATH module_dir) of
        None \<Rightarrow> Inl (Lib (LibExn ''FileNotFoundError'' ''No such file or directory''))
      | Some content \<Rightarrow>
          lib_bind (pickle_load content) (\<lambda>p.
            case p of
              PickledOther \<Rightarrow> Inl (PyAttributeError ''object has no attribute get'')
            | PickledDict b \<Rightarrow>
                Inr (\<lparr> classifier = b_model b, scaler = b_scaler b,
                        MOODS = fst (resolve_moods b) \<rparr>, snd (resolve_moods b))))"

text \<open>\<^verbatim>\<open>set(MOODS or [])\<close>: the labels as a set; a string is iterated character by character.\<close>

definition loaded_set :: "pyval \<Rightarrow> exn + string set" where
  "loaded_set v =
     (case v of
        PyNone \<Rightarrow> Inr {}
      | PySeq xs \<Rightarrow> Inr (set xs)
      | PyStr s \<Rightarrow> Inr (set (map (\<lambda>c. [c]) s))
      | PyOther \<Rightarrow> Inl (PyTypeError ''object is not iterable''))"

definition verify_model_moods :: "pyval \<Rightarrow> string list option \<Rightarrow> exn + bool" where
  "verify_model_moods moods required =
     (let req = (case required of
                   None \<Rightarrow> {''happy'', ''calm'', ''energetic'', ''sad''}
                 | Some r \<Rightarrow> set r)
      in exn_bind (loaded_set moods) (\<lambda>loaded.
           if \<not> req \<subseteq> loaded
           then Inl (ModelLoadError ''Model moods missing required labels'')
           else Inr True))"

text \<open>Bundles and an unpickler used to run the loader.\<close>

definition demo_classifier :: classifier where
  "demo_classifier =
     \<lparr> clf_classes = Some [''calm'', ''energetic'', ''happy'', ''sad''],
       clf_predict = (\<lambda>x. Inr [''happy'']),
       clf_predict_proba = (\<lambda>x. Inr [[1/10, 2/10, 3/10, 4/10]]) \<rparr>"

definition demo_scaler :: scaler where
  "demo_scaler = \<lparr> scaler_transform = (\<lambda>x. Inr x) \<rparr>"

text \<open>A classifier fitted on the integer labels 0 to 3, and one fitted on two labels.\<close>

definition numeric_classifier :: classifier where
  "numeric_classifier =
     \<lparr> clf_classes = Some [''0'', ''1'', ''2'', ''3''],
       clf_predict = (\<lambda>x. Inr [''3'']),
       clf_predict_proba = (\<lambda>x. Inr [[1/10, 2/10, 3/10, 4/10]]) \<rparr>"

definition major_minor_classifier :: classifier where
  "major_minor_classifier =
     \<lparr> clf_classes = Some [''major'', ''minor''],
       clf_predict = (\<lambda>x. Inr [''minor'']),
       clf_predict_proba = (\<lambda>x. Inr [[3/10, 7/10]]) \<rparr>"

definition bundle_empty_classes :: model_bundle where
  "bundle_empty_classes =
     \<lparr> b_model = Some numeric_classifier, b_scaler = Some demo_scaler,
       b_classes = PySeq [], b_moods = PySeq [''calm'', ''energetic'', ''happy'', ''sad''] \<rparr>"

definition bundle_two_labels :: model_bundle where
  "bundle_two_labels =
     \<lparr> b_model = Some major_minor_classifier, b_scaler = Some demo_scaler,
       b_classes = PySeq [''major'', ''minor''], b_moods = PyNone \<rparr>"

text \<open>A bundle whose "classes" field names one label twice.\<close>

definition bundle_duplicate_label :: model_bundle where
  "bundle_duplicate_label =
     \<lparr> b_model = Some demo_classifier, b_scaler = Some demo_scaler,
       b_classes = PySeq [''calm'', ''calm'', ''happy'', ''sad''], b_moods = PyNone \<rparr>"

definition demo_pickle_load :: "bytes \<Rightarrow> lib_exn + pickled" where
  "demo_pickle_load content =
     (if content = [1] then Inr (PickledDict bundle_empty_classes)
      else if content = [2] then Inr (PickledDict bundle_two_labels)
      else if content = [3] then Inr (PickledDict bundle_duplicate_label)
      else Inl (LibExn ''UnpicklingError'' ''invalid load key''))"

section \<open>predict_mood (jsdbk.py, lines 169-253)\<close>

record audio_features =
  af_tempo :: real
  af_tempo_variance :: real
  af_energy :: real
  af_energy_variance :: real
  af_spectral_centroid :: real
  af_spectral_bandwidth :: real
  af_zero_crossing_rate :: real
  af_valence :: real
  af_duration :: real

text \<open>
  A Python dict keeps one entry per key, in the order the keys first came in; a later
  value for a key that is already there replaces the earlier one in place.
\<close>

fun dict_setitem :: "('k \<times> 'v) list \<Rightarrow> 'k \<Rightarrow> 'v \<Rightarrow> ('k \<times> 'v) list" where
  "dict_setitem [] k v = [(k, v)]"
| "dict_setitem (p # ps) k v = (if fst p = k then (k, v) # ps else p # dict_setitem ps k v)"

definition py_dict :: "('k \<times> 'v) list \<Rightarrow> ('k \<times> 'v) list" where
  "py_dict kvs = foldl (\<lambda>d kv. dict_setitem d (fst kv) (snd kv)) [] kvs"

record prediction =
  mood :: string
  probabilities :: "(string \<times> real) list"
  audio_features :: audio_features

text \<open>\<^verbatim>\<open>list(MOODS)\<close>.\<close>

definition py_list :: "pyval \<Rightarrow> exn + string list" where
  "py_list v =
     (case v of
        PySeq xs \<Rightarrow> Inr xs
      | PyStr s \<Rightarrow> Inr (map (\<lambda>c. [c]) s)
      | PyNone \<Rightarrow> Inl (PyTypeError ''NoneType object is not iterable'')
      | PyOther \<Rightarrow> Inl (PyTypeError ''object is not iterable''))"

text \<open>\<^verbatim>\<open>np.diff\<close> of a one-dimensional array.\<close>

definition np_diff :: "real list \<Rightarrow> real list" where
  "np_diff xs = map (\<lambda>ab. snd ab - fst ab) (zip xs (tl xs))"

text \<open>Lines 203-209.\<close>

definition tempo_variance_of :: "librosa \<Rightarrow> nat list \<Rightarrow> nat \<Rightarrow> real" where
  "tempo_variance_of lib beats sr =
     (if length beats > 1 then
        let beat_times = frames_to_time lib beats sr;
            beat_intervals = np_diff beat_times
        in (if length beat_intervals > 0 then np_std lib beat_intervals * 60 else 0)
      else 0)"

text \<open>Lines 221-230: the labels that are zipped with the probabilities.\<close>

definition aligned_labels :: "classifier \<Rightarrow> string list \<Rightarrow> real list \<Rightarrow> string list" where
  "aligned_labels clf labels probs =
     (if length probs \<noteq> length labels
      then (case clf_classes clf of None \<Rightarrow> labels | Some raw \<Rightarrow> raw)
      else labels)"

text \<open>
  Everything after the decoding. \<^verbatim>\<open>np.max\<close> raises ValueError on an empty array;
  \<^verbatim>\<open>scaler.transform\<close> and \<^verbatim>\<open>classifier.predict\<close> raise AttributeError when the bundle had
  no scaler or no model.
\<close>

definition predict_mood_body ::
    "librosa \<Rightarrow> module_state \<Rightarrow> real list \<Rightarrow> nat \<Rightarrow> exn + prediction" where
  "predict_mood_body lib st y sr =
     (if sr = 0 then Inl (PyZeroDivisionError ''division by zero'')
      else
        exn_bind (extract_features_from_audio lib y sr) (\<lambda>features_array.
        exn_bind (case scaler st of
                    None \<Rightarrow> Inl (PyAttributeError ''NoneType object has no attribute transform'')
                  | Some sc \<Rightarrow> lib_bind (scaler_transform sc features_array) Inr)
          (\<lambda>features_scaled.
        exn_bind (case classifier st of
                    None \<Rightarrow> Inl (PyAttributeError ''NoneType object has no attribute predict'')
                  | Some clf \<Rightarrow> Inr clf) (\<lambda>clf.
        lib_bind (clf_predict clf features_scaled) (\<lambda>predicted.
        exn_bind (getitem predicted 0) (\<lambda>mood_v.
        lib_bind (clf_predict_proba clf features_scaled) (\<lambda>proba.
        exn_bind (getitem proba 0) (\<lambda>probs.
        if probs = [] then Inl (PyValueError ''zero-size array to reduction operation maximum'')
        else
        lib_bind (beat_track lib y sr) (\<lambda>(tempo, beats).
        let tempo_variance = tempo_variance_of lib beats sr in
        lib_bind (rms lib y None None) (\<lambda>rms_v.
        lib_bind (spectral_centroid lib y sr) (\<lambda>centroid.
        lib_bind (spectral_bandwidth lib y sr) (\<lambda>bandwidth.
        lib_bind (zero_crossing_rate lib y None None) (\<lambda>zcr.
        exn_bind (py_list (MOODS st)) (\<lambda>labels.
          Inr \<lparr> mood = mood_v,
                probabilities = py_dict (zip (aligned_labels clf labels probs) probs),
                audio_features =
                  \<lparr> af_tempo = tempo,
                    af_tempo_variance = tempo_variance,
                    af_energy = np_mean lib (concat rms_v),
                    af_energy_variance = np_std lib (concat rms_v),
                    af_spectral_centroid = np_mean lib (concat centroid),
                    af_spectral_bandwidth = np_mean lib (concat bandwidth),
                    af_zero_crossing_rate = np_mean lib (concat zcr),
                    af_valence = np_mean lib (concat centroid) / (real sr / 2),
                    af_duration = real (length y) / real sr \<rparr> \<rparr>))))))))))))))"

definition predict_mood ::
    "audio_env \<Rightarrow> librosa \<Rightarrow> module_state \<Rightarrow> fs \<Rightarrow> string \<Rightarrow> (exn + prediction) \<times> fs" where
  "predict_mood env lib st files audio_path =
     (case fst (load_audio env files audio_path) of
        Inl e \<Rightarrow> (Inl e, snd (load_audio env files audio_path))
      | Inr sig \<Rightarrow>
          (predict_mood_body lib st (fst sig) (snd sig), snd (load_audio env files audio_path)))"

section \<open>The /predict endpoint (app.py, lines 15-48)\<close>

text \<open>
  An upload as FastAPI hands it to the handler: the declared content type (absent when
  the part has no such header), the file name, and the bytes.
\<close>

record upload_file =
  content_type :: "string option"
  filename :: string
  file_content :: bytes

text \<open>\<^verbatim>\<open>str.lower\<close> on the ASCII letters, which are the only ones the extensions contain.\<close>

definition lower_char :: "char \<Rightarrow> char" where
  "lower_char c =
     (case map_of (zip ''ABCDEFGHIJKLMNOPQRSTUVWXYZ'' ''abcdefghijklmnopqrstuvwxyz'') c of
        None \<Rightarrow> c
      | Some l \<Rightarrow> l)"

definition py_lower :: "string \<Rightarrow> string" where
  "py_lower s = map lower_char s"

definition audio_exts :: "string list" where
  "audio_exts = [''.wav'', ''.mp3'', ''.ogg'', ''.flac'', ''.m4a'']"

definition is_audio_mime :: "upload_file \<Rightarrow> bool" where
  "is_audio_mime f =
     (case content_type f of None \<Rightarrow> False | Some ct \<Rightarrow> ct \<noteq> [] \<and> prefix ''audio/'' ct)"

definition is_octet :: "upload_file \<Rightarrow> bool" where
  "is_octet f = (content_type f = Some ''application/octet-stream'')"

definition has_audio_ext :: "upload_file \<Rightarrow> bool" where
  "has_audio_ext f = list_ex (\<lambda>ext. suffix ext (py_lower (filename f))) audio_exts"

text \<open>The \<^verbatim>\<open>except\<close> clauses of the handler, in their order.\<close>

fun to_http :: "exn + prediction \<Rightarrow> exn + prediction" where
  "to_http (Inl (AudioDecodeError m c)) = Inl (HTTPException 415 m)"
| "to_http (Inl (HTTPException st d)) = Inl (HTTPException st d)"
| "to_http (Inl e) = Inl (HTTPException 500 (str_exn e))"
| "to_http (Inr r) = Inr r"

definition predict ::
    "audio_env \<Rightarrow> librosa \<Rightarrow> module_state \<Rightarrow> fs \<Rightarrow> upload_file \<Rightarrow> (exn + prediction) \<times> fs" where
  "predict env lib st files f =
     (let temp_path = ''temp_audio'' in
      if \<not> (is_audio_mime f \<or> is_octet f \<or> has_audio_ext f)
      then (Inl (HTTPException 400 ''Unsupported audio format''), files(temp_path := None))
      else
        (let fs0 = files(temp_path \<mapsto> file_content f);
             r = predict_mood env lib st fs0 temp_path
         in (to_http (fst r), (snd r)(temp_path := None))))"

section \<open>A concrete backend\<close>

text \<open>
  The arithmetic mean and the population standard deviation over the reals, and a backend
  that returns fixed small arrays (the MFCC matrix has the requested number of rows, row
  \<open>i\<close> being \<open>[i, i + 2]\<close>), used to run the definitions above.
\<close>

definition mean :: "real list \<Rightarrow> real" where
  "mean xs = sum_list xs / real (length xs)"

definition pstd :: "real list \<Rightarrow> real" where
  "pstd xs = sqrt (mean (map (\<lambda>x. (x - mean xs)\<^sup>2) xs))"

definition demo_lib :: librosa where
  "demo_lib =
     \<lparr> beat_track = (\<lambda>y sr. Inr (120, [4, 6])),
       rms = (\<lambda>y frame_length hop_length. Inr [[1, 3]]),
       spectral_centroid = (\<lambda>y sr. Inr [[2, 4]]),
       zero_crossing_rate = (\<lambda>y frame_length hop_length. Inr [[0, 1]]),
       spectral_rolloff = (\<lambda>y sr roll_percent. Inr [[5, 7]]),
       mfcc = (\<lambda>y sr n_mfcc n_fft hop_length. Inr (map (\<lambda>i. [real i, real i + 2]) [0..<n_mfcc])),
       chroma_stft = (\<lambda>y sr n_fft hop_length. Inr [[1, 1]]),
       onset_strength = (\<lambda>y sr. Inr [3, 3]),
       spectral_contrast = (\<lambda>y sr n_fft hop_length. Inr [[3, 5]]),
       onset_detect = (\<lambda>y sr. Inr [3, 9]),
       spectral_bandwidth = (\<lambda>y sr. Inr [[6, 8]]),
       frame_to_time = (\<lambda>f sr. real (f * 512) / real sr),
       np_mean = mean,
       np_std = pstd \<rparr>"

definition demo_state :: module_state where
  "demo_state =
     \<lparr> classifier = Some demo_classifier, scaler = Some demo_scaler,
       MOODS = PySeq [''calm'', ''energetic'', ''happy'', ''sad''] \<rparr>"

text \<open>
  The state the module initialisation leaves for the bundle that names one label twice, a
  decodable file, and two uploads.
\<close>

definition state_duplicate_label :: module_state where
  "state_duplicate_label =
     \<lparr> classifier = Some demo_classifier, scaler = Some demo_scaler,
       MOODS = PySeq [''calm'', ''calm'', ''happy'', ''sad''] \<rparr>"

definition wav_fs :: fs where
  "wav_fs = [''a.wav'' \<mapsto> [5]]"

definition upload_notes :: upload_file where
  "upload_notes =
     \<lparr> content_type = Some ''text/plain'', filename = ''notes.txt'', file_content = [5] \<rparr>"

definition upload_song :: upload_file where
  "upload_song = \<lparr> content_type = None, filename = ''Song.MP3'', file_content = [5] \<rparr>"

text \<open>The backend above with three beats, unevenly spaced.\<close>

definition demo_lib_three_beats :: librosa where
  "demo_lib_three_beats = demo_lib \<lparr> beat_track := (\<lambda>y sr. Inr (120, [4, 6, 12])) \<rparr>"

text \<open>Whether a result is a raised \<^verbatim>\<open>HTTPException\<close>.\<close>

fun http_exn :: "exn \<Rightarrow> bool" where
  "http_exn (HTTPException st d) = True"
| "http_exn e = False"

definition is_http :: "exn + 'a \<Rightarrow> bool" where
  "is_http r = (case r of Inl e \<Rightarrow> http_exn e | Inr v \<Rightarrow> False)"

section \<open>Properties of load_audio\<close>

lemma lib_bind_InrE:
  assumes "lib_bind r f = Inr v"
  obtains x where "r = Inr x" and "f x = Inr v"
  using assms by (cases r) (simp_all add: lib_bind_def)

lemma exn_bind_InrE:
  assumes "exn_bind r f = Inr v"
  obtains x where "r = Inr x" and "f x = Inr v"
  using assms by (cases r) (simp_all add: exn_bind_def)

lemma lib_bind_Inr [simp]: "lib_bind (Inr x) f = f x"
  by (simp add: lib_bind_def)

lemma exn_bind_Inr [simp]: "exn_bind (Inr x) f = f x"
  by (simp add: exn_bind_def)

text \<open>
  C6, as stated, at a concrete input: the direct decode fails, ffmpeg is on the host, the
  temporary file is created, and the ffmpeg run exits with a non-zero status, leaving the
  temporary file empty. \<^verbatim>\<open>load_audio\<close> raises AudioDecodeError from the failed conversion
  (line 86 is inside the same \<^verbatim>\<open>try\<close>), its cause being the CalledProcessError, although
  ffmpeg is available and the retry decode of line 91 never runs, so it is not the retry
  decode that fails.
\<close>

theorem load_audio_transcode_failure_counterexample:
  "fst (load_audio env_ffmpeg_exits_nonzero demo_fs ''song.mp3'') =
     Inl (AudioDecodeError
           ''Audio decode failed after ffmpeg conversion: returned non-zero exit status 1''
           (LibExn ''CalledProcessError'' ''returned non-zero exit status 1'')) \<and>
   is_decode_error (fst (load_audio env_ffmpeg_exits_nonzero demo_fs ''song.mp3'')) \<and>
   primary_fails env_ffmpeg_exits_nonzero demo_fs ''song.mp3'' \<and>
   which_ffmpeg env_ffmpeg_exits_nonzero \<and>
   transcode_fails env_ffmpeg_exits_nonzero demo_fs ''song.mp3'' \<and>
   \<not> retry_decode_fails env_ffmpeg_exits_nonzero demo_fs ''song.mp3''"
  by (simp add: load_audio_def env_ffmpeg_exits_nonzero_def demo_fs_def demo_decode_def
      primary_fails_def transcode_fails_def retry_decode_fails_def after_ffmpeg_def
      after_mkstemp_def Let_def)

text \<open>
  C6, amended: \<^verbatim>\<open>load_audio\<close> raises AudioDecodeError exactly when the direct decode fails
  and either ffmpeg is not on the host, or the temporary file is created and the
  conversion into it fails, or the conversion succeeds and the retry decode of the
  temporary file fails. The error carries the exception that caused it. When the direct
  decode fails and ffmpeg is available, then: if creating the temporary file raises, that
  OSError propagates and nothing is transcoded; if the temporary file is created, the
  source is converted into it (\<^verbatim>\<open>-ar 22050 -ac 1\<close>) and, when the conversion succeeds, the
  result is the decode of that temporary file.
\<close>

theorem load_audio_decode_error_iff:
  "(is_decode_error (fst (load_audio env files p)) \<longleftrightarrow>
      primary_fails env files p \<and>
      (\<not> which_ffmpeg env \<or> transcode_fails env files p \<or> retry_decode_fails env files p)) \<and>
   (primary_fails env files p \<and> \<not> which_ffmpeg env \<longrightarrow>
      fst (load_audio env files p) =
        Inl (AudioDecodeError ''Audio decode failed: no suitable backend found (install ffmpeg)''
              (projl (librosa_load env (files p))))) \<and>
   (primary_fails env files p \<and> which_ffmpeg env \<and> mkstemp env = Inl m \<longrightarrow>
      load_audio env files p = (Inl (Lib (LibExn ''OSError'' m)), files)) \<and>
   (primary_fails env files p \<and> which_ffmpeg env \<and> mkstemp env = Inr tmp \<longrightarrow>
      fst (load_audio env files p) =
        (case fst (check_call env (ffmpeg_argv p tmp) (after_mkstemp files tmp)) of
           Inl e2 \<Rightarrow>
             Inl (AudioDecodeError (''Audio decode failed after ffmpeg conversion: '' @ msg e2) e2)
         | Inr u \<Rightarrow>
             (case librosa_load env (after_ffmpeg env files p tmp tmp) of
                Inl e2 \<Rightarrow>
                  Inl (AudioDecodeError
                        (''Audio decode failed after ffmpeg conversion: '' @ msg e2) e2)
              | Inr y \<Rightarrow> Inr (y, SR))))"
  by (auto simp: load_audio_def primary_fails_def transcode_fails_def retry_decode_fails_def
      Let_def split: sum.splits)

theorem load_audio_decode_error_iff_witness:
  "primary_fails env_ffmpeg_exits_nonzero demo_fs ''song.mp3'' \<and>
   which_ffmpeg env_ffmpeg_exits_nonzero \<and>
   mkstemp env_ffmpeg_exits_nonzero = Inr ''/tmp/t.wav'' \<and>
   transcode_fails env_ffmpeg_exits_nonzero demo_fs ''song.mp3'' \<and>
   fst (load_audio env_ffmpeg_exits_nonzero demo_fs ''song.mp3'') =
     Inl (AudioDecodeError
           ''Audio decode failed after ffmpeg conversion: returned non-zero exit status 1''
           (LibExn ''CalledProcessError'' ''returned non-zero exit status 1''))"
proof -
  have pf: "primary_fails env_ffmpeg_exits_nonzero demo_fs ''song.mp3''"
    by (simp add: primary_fails_def env_ffmpeg_exits_nonzero_def demo_fs_def demo_decode_def)
  have wf: "which_ffmpeg env_ffmpeg_exits_nonzero"
    by (simp add: env_ffmpeg_exits_nonzero_def)
  have mk: "mkstemp env_ffmpeg_exits_nonzero = Inr ''/tmp/t.wav''"
    by (simp add: env_ffmpeg_exits_nonzero_def)
  have tf: "transcode_fails env_ffmpeg_exits_nonzero demo_fs ''song.mp3''"
    by (simp add: transcode_fails_def env_ffmpeg_exits_nonzero_def)
  from load_audio_decode_error_iff
         [of env_ffmpeg_exits_nonzero demo_fs "''song.mp3''" _ "''/tmp/t.wav''"] pf wf mk
  have "fst (load_audio env_ffmpeg_exits_nonzero demo_fs ''song.mp3'') =
        (case fst (check_call env_ffmpeg_exits_nonzero
                     (ffmpeg_argv ''song.mp3'' ''/tmp/t.wav'')
                     (after_mkstemp demo_fs ''/tmp/t.wav'')) of
           Inl e2 \<Rightarrow>
             Inl (AudioDecodeError (''Audio decode failed after ffmpeg conversion: '' @ msg e2) e2)
         | Inr u \<Rightarrow>
             (case librosa_load env_ffmpeg_exits_nonzero
                     (after_ffmpeg env_ffmpeg_exits_nonzero demo_fs ''song.mp3''
                        ''/tmp/t.wav'' ''/tmp/t.wav'') of
                Inl e2 \<Rightarrow>
                  Inl (AudioDecodeError
                        (''Audio decode failed after ffmpeg conversion: '' @ msg e2) e2)
              | Inr y \<Rightarrow> Inr (y, SR)))"
    by blast
  then have "fst (load_audio env_ffmpeg_exits_nonzero demo_fs ''song.mp3'') =
     Inl (AudioDecodeError
           ''Audio decode failed after ffmpeg conversion: returned non-zero exit status 1''
           (LibExn ''CalledProcessError'' ''returned non-zero exit status 1''))"
    by (simp add: env_ffmpeg_exits_nonzero_def)
  with pf wf mk tf show ?thesis by simp
qed

text \<open>
  C7: whenever \<^verbatim>\<open>load_audio\<close> creates the temporary file (the direct decode failed, ffmpeg
  is available and \<^verbatim>\<open>mkstemp\<close> returned a path), that path does not exist in the file
  system \<^verbatim>\<open>load_audio\<close> leaves behind, whether it returns or raises, and no other path has
  changed.
\<close>

theorem load_audio_removes_tmpwav:
  assumes "primary_fails env files p" and "which_ffmpeg env" and "mkstemp env = Inr tmp"
  shows "snd (load_audio env files p) tmp = None \<and>
         (\<forall>q. q \<noteq> tmp \<longrightarrow> snd (load_audio env files p) q = files q)"
  using assms
  by (auto simp: load_audio_def primary_fails_def after_ffmpeg_def after_mkstemp_def Let_def
      split: sum.splits)

theorem load_audio_removes_tmpwav_witness:
  "primary_fails env_ffmpeg_ok demo_fs ''song.mp3'' \<and> which_ffmpeg env_ffmpeg_ok \<and>
   mkstemp env_ffmpeg_ok = Inr ''/tmp/t.wav'' \<and>
   fst (load_audio env_ffmpeg_ok demo_fs ''song.mp3'') = Inr ([1, 2], SR) \<and>
   snd (load_audio env_ffmpeg_ok demo_fs ''song.mp3'') ''/tmp/t.wav'' = None \<and>
   snd (load_audio env_ffmpeg_ok demo_fs ''song.mp3'') ''song.mp3'' = Some [0]"
proof -
  have pf: "primary_fails env_ffmpeg_ok demo_fs ''song.mp3''"
    by (simp add: primary_fails_def env_ffmpeg_ok_def demo_fs_def demo_decode_def)
  have wf: "which_ffmpeg env_ffmpeg_ok"
    by (simp add: env_ffmpeg_ok_def)
  have mk: "mkstemp env_ffmpeg_ok = Inr ''/tmp/t.wav''"
    by (simp add: env_ffmpeg_ok_def)
  have res: "fst (load_audio env_ffmpeg_ok demo_fs ''song.mp3'') = Inr ([1, 2], SR)"
    by (simp add: load_audio_def env_ffmpeg_ok_def demo_fs_def demo_decode_def
        after_ffmpeg_def after_mkstemp_def Let_def)
  from load_audio_removes_tmpwav [OF pf wf mk]
  have "snd (load_audio env_ffmpeg_ok demo_fs ''song.mp3'') ''/tmp/t.wav'' = None"
    and "snd (load_audio env_ffmpeg_ok demo_fs ''song.mp3'') ''song.mp3'' = demo_fs ''song.mp3''"
    by simp_all
  with pf wf mk res show ?thesis by (simp add: demo_fs_def)
qed

section \<open>Properties of the feature extractors\<close>

text \<open>
  C1: \<^verbatim>\<open>extract_features_from_audio\<close> returns exactly when the rate is not zero, every
  backend call succeeds and the MFCC matrix (computed with 13 coefficients) has rows 1 and
  2; what it returns is then one row of length 15 holding, in this order: tempo, RMS mean,
  centroid mean, zero-crossing mean, rolloff mean, the means of MFCC rows 1 and 2 (row 0
  is skipped), chroma mean, onset-strength mean, contrast mean, the standard deviation of
  the onset-strength curve in the "tempo std" slot, then the RMS, rolloff, chroma and
  onset-strength standard deviations.
\<close>

theorem extract_features_from_audio_vector:
  "extract_features_from_audio lib y sr = Inr v \<longleftrightarrow>
     sr \<noteq> 0 \<and>
     (\<exists>tempo beats rms_v centroid zcr rolloff mfccs chroma onset_env contrast.
        beat_track lib y sr = Inr (tempo, beats) \<and>
        rms lib y (Some 2048) (Some 512) = Inr rms_v \<and>
        spectral_centroid lib y sr = Inr centroid \<and>
        zero_crossing_rate lib y (Some 2048) (Some 512) = Inr zcr \<and>
        spectral_rolloff lib y sr (Some 0.85) = Inr rolloff \<and>
        mfcc lib y sr 13 (Some 2048) (Some 512) = Inr mfccs \<and>
        chroma_stft lib y sr (Some 2048) (Some 512) = Inr chroma \<and>
        onset_strength lib y sr = Inr onset_env \<and>
        spectral_contrast lib y sr (Some 2048) (Some 512) = Inr contrast \<and>
        2 < length mfccs \<and>
        v = [[tempo, np_mean lib (concat rms_v), np_mean lib (concat centroid),
              np_mean lib (concat zcr), np_mean lib (concat rolloff),
              np_mean lib (mfccs ! 1), np_mean lib (mfccs ! 2),
              np_mean lib (concat chroma), np_mean lib onset_env,
              np_mean lib (concat contrast), np_std lib onset_env,
              np_std lib (concat rms_v), np_std lib (concat rolloff),
              np_std lib (concat chroma), np_std lib onset_env]] \<and>
        length (hd v) = 15)"
  (is "?L \<longleftrightarrow> ?R")
proof
  assume ?L
  then show ?R
    unfolding extract_features_from_audio_def
    by (auto elim!: lib_bind_InrE exn_bind_InrE simp: getitem_def split: if_splits prod.splits)
next
  assume ?R
  then show ?L
    unfolding extract_features_from_audio_def
    by (auto simp: getitem_def)
qed

theorem extract_features_from_audio_vector_witness:
  "extract_features_from_audio demo_lib [1, 2] SR =
     Inr [[120, 2, 3, 1/2, 6, 2, 3, 1, 3, 4, 0, 1, 1, 0, 0]]"
  by (rule iffD2 [OF extract_features_from_audio_vector])
    (simp add: demo_lib_def mean_def pstd_def upt_rec SR_def)

lemma getitem_Inr_iff: "getitem xs i = Inr x \<longleftrightarrow> i < length xs \<and> x = xs ! i"
  by (auto simp: getitem_def)

lemma anti_overfitting_body_InrD:
  assumes "anti_overfitting_body lib y sr = Inr row2"
  shows "\<exists>tempo beats rms_v centroids zcr rolloff mfccs chroma onset_frames contrast.
         beat_track lib y sr = Inr (tempo, beats) \<and>
         rms lib y None None = Inr rms_v \<and>
         spectral_centroid lib y sr = Inr centroids \<and>
         zero_crossing_rate lib y None None = Inr zcr \<and>
         spectral_rolloff lib y sr None = Inr rolloff \<and>
         mfcc lib y sr 13 None None = Inr mfccs \<and> 1 < length mfccs \<and>
         chroma_stft lib y sr None None = Inr chroma \<and>
         onset_detect lib y sr = Inr onset_frames \<and>
         spectral_contrast lib y sr None None = Inr contrast \<and>
         row2 = [tempo, np_mean lib (concat rms_v), np_mean lib (concat centroids),
                 np_mean lib (concat zcr), np_mean lib (concat rolloff),
                 np_mean lib (mfccs ! 0), np_mean lib (mfccs ! 1),
                 np_mean lib (concat chroma),
                 (if 0 < length onset_frames then real (length onset_frames) else 0),
                 np_mean lib (concat contrast),
                 (if 1 < length beats then np_std lib (map real beats) else 0),
                 np_std lib (concat rms_v), np_std lib (concat rolloff),
                 np_std lib (concat chroma),
                 (if 1 < length beats then np_std lib (map real beats) else 0)]"
  using assms unfolding anti_overfitting_body_def
  by (auto elim!: lib_bind_InrE exn_bind_InrE simp: getitem_Inr_iff split: prod.splits
      split del: if_split)

text \<open>
  C9: the two extractors are not extensionally equal. Whatever the backend and the signal,
  a row returned by \<^verbatim>\<open>extract_features_from_audio\<close> holds the means of MFCC rows 1 and 2
  in slots 5 and 6, the mean of the onset-strength envelope in slot 8 and its standard
  deviation in slots 10 and 14, whereas a row returned by
  \<^verbatim>\<open>extract_anti_overfitting_features\<close> holds the means of MFCC rows 0 and 1, the number of
  detected onsets, and the standard deviation of the beat frames (0 with fewer than two
  beats) in the same slots; both rows have 15 entries. There is a file and a backend on
  which both succeed on the same decoded signal and differ in each of these five slots.
\<close>

theorem extractors_differ:
  "(extract_features_from_audio lib y sr = Inr v \<longrightarrow>
      (\<exists>row tempo beats mfccs onset_env.
         v = [row] \<and> length row = 15 \<and>
         beat_track lib y sr = Inr (tempo, beats) \<and>
         mfcc lib y sr 13 (Some 2048) (Some 512) = Inr mfccs \<and>
         onset_strength lib y sr = Inr onset_env \<and>
         row ! 5 = np_mean lib (mfccs ! 1) \<and> row ! 6 = np_mean lib (mfccs ! 2) \<and>
         row ! 8 = np_mean lib onset_env \<and>
         row ! 10 = np_std lib onset_env \<and> row ! 14 = np_std lib onset_env)) \<and>
   (extract_anti_overfitting_features env lib files path = Some row2 \<longrightarrow>
      (\<exists>y2 tempo beats mfccs onset_frames.
         librosa_load env (files path) = Inr y2 \<and> length row2 = 15 \<and>
         beat_track lib y2 SR = Inr (tempo, beats) \<and>
         mfcc lib y2 SR 13 None None = Inr mfccs \<and>
         onset_detect lib y2 SR = Inr onset_frames \<and>
         row2 ! 5 = np_mean lib (mfccs ! 0) \<and> row2 ! 6 = np_mean lib (mfccs ! 1) \<and>
         row2 ! 8 = real (length onset_frames) \<and>
         row2 ! 10 = (if 1 < length beats then np_std lib (map real beats) else 0) \<and>
         row2 ! 14 = (if 1 < length beats then np_std lib (map real beats) else 0))) \<and>
   (\<exists>e l fs pth sig row1 row2.
      librosa_load e (fs pth) = Inr sig \<and>
      extract_features_from_audio l sig SR = Inr [row1] \<and>
      extract_anti_overfitting_features e l fs pth = Some row2 \<and>
      row1 ! 5 \<noteq> row2 ! 5 \<and> row1 ! 6 \<noteq> row2 ! 6 \<and> row1 ! 8 \<noteq> row2 ! 8 \<and>
      row1 ! 10 \<noteq> row2 ! 10 \<and> row1 ! 14 \<noteq> row2 ! 14)"
proof (intro conjI impI)
  assume "extract_features_from_audio lib y sr = Inr v"
  then show "\<exists>row tempo beats mfccs onset_env.
         v = [row] \<and> length row = 15 \<and>
         beat_track lib y sr = Inr (tempo, beats) \<and>
         mfcc lib y sr 13 (Some 2048) (Some 512) = Inr mfccs \<and>
         onset_strength lib y sr = Inr onset_env \<and>
         row ! 5 = np_mean lib (mfccs ! 1) \<and> row ! 6 = np_mean lib (mfccs ! 2) \<and>
         row ! 8 = np_mean lib onset_env \<and>
         row ! 10 = np_std lib onset_env \<and> row ! 14 = np_std lib onset_env"
    unfolding extract_features_from_audio_def
    by (auto elim!: lib_bind_InrE exn_bind_InrE simp: getitem_def split: if_splits prod.splits)
next
  assume a: "extract_anti_overfitting_features env lib files path = Some row2"
  then obtain y2 where l: "librosa_load env (files path) = Inr y2"
    and b: "anti_overfitting_body lib y2 SR = Inr row2"
    by (auto simp: extract_anti_overfitting_features_def split: sum.splits)
  from anti_overfitting_body_InrD [OF b] obtain tempo beats rms_v centroids zcr rolloff
      mfccs chroma onset_frames contrast where
    bt: "beat_track lib y2 SR = Inr (tempo, beats)"
    and mf: "mfcc lib y2 SR 13 None None = Inr mfccs"
    and od: "onset_detect lib y2 SR = Inr onset_frames"
    and row2: "row2 = [tempo, np_mean lib (concat rms_v), np_mean lib (concat centroids),
                 np_mean lib (concat zcr), np_mean lib (concat rolloff),
                 np_mean lib (mfccs ! 0), np_mean lib (mfccs ! 1),
                 np_mean lib (concat chroma),
                 (if 0 < length onset_frames then real (length onset_frames) else 0),
                 np_mean lib (concat contrast),
                 (if 1 < length beats then np_std lib (map real beats) else 0),
                 np_std lib (concat rms_v), np_std lib (concat rolloff),
                 np_std lib (concat chroma),
                 (if 1 < length beats then np_std lib (map real beats) else 0)]"
    by blast
  have "length row2 = 15 \<and>
        row2 ! 5 = np_mean lib (mfccs ! 0) \<and> row2 ! 6 = np_mean lib (mfccs ! 1) \<and>
        row2 ! 8 = real (length onset_frames) \<and>
        row2 ! 10 = (if 1 < length beats then np_std lib (map real beats) else 0) \<and>
        row2 ! 14 = (if 1 < length beats then np_std lib (map real beats) else 0)"
    by (simp add: row2)
  with l bt mf od
  show "\<exists>y2 tempo beats mfccs onset_frames.
         librosa_load env (files path) = Inr y2 \<and> length row2 = 15 \<and>
         beat_track lib y2 SR = Inr (tempo, beats) \<and>
         mfcc lib y2 SR 13 None None = Inr mfccs \<and>
         onset_detect lib y2 SR = Inr onset_frames \<and>
         row2 ! 5 = np_mean lib (mfccs ! 0) \<and> row2 ! 6 = np_mean lib (mfccs ! 1) \<and>
         row2 ! 8 = real (length onset_frames) \<and>
         row2 ! 10 = (if 1 < length beats then np_std lib (map real beats) else 0) \<and>
         row2 ! 14 = (if 1 < length beats then np_std lib (map real beats) else 0)"
    by blast
next
  have "librosa_load env_ffmpeg_ok (wav_fs ''a.wav'') = Inr [1, 2] \<and>
      extract_features_from_audio demo_lib [1, 2] SR =
        Inr [[120, 2, 3, 1/2, 6, 2, 3, 1, 3, 4, 0, 1, 1, 0, 0]] \<and>
      extract_anti_overfitting_features env_ffmpeg_ok demo_lib wav_fs ''a.wav'' =
        Some [120, 2, 3, 1/2, 6, 1, 2, 1, 2, 4, 1, 1, 1, 0, 1]"
    by (simp add: extract_features_from_audio_def extract_anti_overfitting_features_def
      anti_overfitting_body_def env_ffmpeg_ok_def wav_fs_def demo_decode_def SR_def demo_lib_def
      getitem_def mean_def pstd_def upt_rec)
  then show "\<exists>e l fs pth sig row1 row2.
      librosa_load e (fs pth) = Inr sig \<and>
      extract_features_from_audio l sig SR = Inr [row1] \<and>
      extract_anti_overfitting_features e l fs pth = Some row2 \<and>
      row1 ! 5 \<noteq> row2 ! 5 \<and> row1 ! 6 \<noteq> row2 ! 6 \<and> row1 ! 8 \<noteq> row2 ! 8 \<and>
      row1 ! 10 \<noteq> row2 ! 10 \<and> row1 ! 14 \<noteq> row2 ! 14"
    apply -
    apply (rule exI [of _ env_ffmpeg_ok])
    apply (rule exI [of _ demo_lib])
    apply (rule exI [of _ wav_fs])
    apply (rule exI [of _ "''a.wav''"])
    apply (rule exI [of _ "[1, 2]"])
    apply (rule exI [of _ "[120, 2, 3, 1/2, 6, 2, 3, 1, 3, 4, 0, 1, 1, 0, 0]"])
    apply (rule exI [of _ "[120, 2, 3, 1/2, 6, 1, 2, 1, 2, 4, 1, 1, 1, 0, 1]"])
    apply simp
    done
qed

theorem extractors_differ_witness:
  "extract_features_from_audio demo_lib [1, 2] SR =
     Inr [[120, 2, 3, 1/2, 6, 2, 3, 1, 3, 4, 0, 1, 1, 0, 0]] \<and>
   extract_anti_overfitting_features env_ffmpeg_ok demo_lib wav_fs ''a.wav'' =
     Some [120, 2, 3, 1/2, 6, 1, 2, 1, 2, 4, 1, 1, 1, 0, 1] \<and>
   [120, 2, 3, 1/2, 6, 2, 3, 1, 3, 4, 0, 1, 1, 0, 0 :: real] ! 5 = np_mean demo_lib [1, 3] \<and>
   [120, 2, 3, 1/2, 6, 1, 2, 1, 2, 4, 1, 1, 1, 0, 1 :: real] ! 5 = np_mean demo_lib [0, 2] \<and>
   [120, 2, 3, 1/2, 6, 2, 3, 1, 3, 4, 0, 1, 1, 0, 0 :: real] ! 10 = np_std demo_lib [3, 3] \<and>
   [120, 2, 3, 1/2, 6, 1, 2, 1, 2, 4, 1, 1, 1, 0, 1 :: real] ! 10 = np_std demo_lib [4, 6]"
proof -
  have h1: "extract_features_from_audio demo_lib [1, 2] SR =
      Inr [[120, 2, 3, 1/2, 6, 2, 3, 1, 3, 4, 0, 1, 1, 0, 0]]"
    by (simp add: extract_features_from_audio_def SR_def demo_lib_def getitem_def mean_def
        pstd_def upt_rec)
  have h2: "extract_anti_overfitting_features env_ffmpeg_ok demo_lib wav_fs ''a.wav'' =
      Some [120, 2, 3, 1/2, 6, 1, 2, 1, 2, 4, 1, 1, 1, 0, 1]"
    by (simp add: extract_anti_overfitting_features_def anti_overfitting_body_def
        env_ffmpeg_ok_def wav_fs_def demo_decode_def SR_def demo_lib_def getitem_def mean_def
        pstd_def upt_rec)
  note t = extractors_differ [of demo_lib "[1, 2]" SR
      "[[120, 2, 3, 1/2, 6, 2, 3, 1, 3, 4, 0, 1, 1, 0, 0]]" env_ffmpeg_ok wav_fs "''a.wav''"
      "[120, 2, 3, 1/2, 6, 1, 2, 1, 2, 4, 1, 1, 1, 0, 1]"]
  from t h1 obtain row mfccs onset_env where
    "[[120, 2, 3, 1/2, 6, 2, 3, 1, 3, 4, 0, 1, 1, 0, 0]] = [row]"
    and "mfcc demo_lib [1, 2] SR 13 (Some 2048) (Some 512) = Inr mfccs"
    and "onset_strength demo_lib [1, 2] SR = Inr onset_env"
    and "row ! 5 = np_mean demo_lib (mfccs ! 1)"
    and "row ! 10 = np_std demo_lib onset_env"
    by blast
  then have a: "[120, 2, 3, 1/2, 6, 2, 3, 1, 3, 4, 0, 1, 1, 0, 0 :: real] ! 5 =
        np_mean demo_lib [1, 3]"
    and b: "[120, 2, 3, 1/2, 6, 2, 3, 1, 3, 4, 0, 1, 1, 0, 0 :: real] ! 10 =
        np_std demo_lib [3, 3]"
    by (auto simp: demo_lib_def upt_rec)
  from t h2 obtain y2 tempo beats mfccs2 where
    "librosa_load env_ffmpeg_ok (wav_fs ''a.wav'') = Inr y2"
    and "beat_track demo_lib y2 SR = Inr (tempo, beats)"
    and "mfcc demo_lib y2 SR 13 None None = Inr mfccs2"
    and "[120, 2, 3, 1/2, 6, 1, 2, 1, 2, 4, 1, 1, 1, 0, 1 :: real] ! 5 =
           np_mean demo_lib (mfccs2 ! 0)"
    and "[120, 2, 3, 1/2, 6, 1, 2, 1, 2, 4, 1, 1, 1, 0, 1 :: real] ! 10 =
           (if 1 < length beats then np_std demo_lib (map real beats) else 0)"
    by blast
  then have c: "[120, 2, 3, 1/2, 6, 1, 2, 1, 2, 4, 1, 1, 1, 0, 1 :: real] ! 5 =
        np_mean demo_lib [0, 2]"
    and d: "[120, 2, 3, 1/2, 6, 1, 2, 1, 2, 4, 1, 1, 1, 0, 1 :: real] ! 10 =
        np_std demo_lib [4, 6]"
    by (auto simp: demo_lib_def upt_rec)
  from h1 h2 a b c d show ?thesis
    by blast
qed

section \<open>Properties of predict_mood\<close>

lemma predict_mood_InrE:
  assumes "fst (predict_mood env lib st files p) = Inr r"
  obtains y sr where "fst (load_audio env files p) = Inr (y, sr)"
    and "predict_mood_body lib st y sr = Inr r"
  using assms by (auto simp: predict_mood_def split: sum.splits)

lemma predict_mood_body_InrD:
  assumes "predict_mood_body lib st y sr = Inr r"
  shows "\<exists>feats sc scaled clf predicted proba tempo beats labels.
           sr \<noteq> 0 \<and>
           extract_features_from_audio lib y sr = Inr feats \<and>
           scaler st = Some sc \<and> scaler_transform sc feats = Inr scaled \<and>
           classifier st = Some clf \<and>
           clf_predict clf scaled = Inr predicted \<and> predicted \<noteq> [] \<and>
           clf_predict_proba clf scaled = Inr proba \<and> proba \<noteq> [] \<and> proba ! 0 \<noteq> [] \<and>
           beat_track lib y sr = Inr (tempo, beats) \<and>
           py_list (MOODS st) = Inr labels \<and>
           mood r = predicted ! 0 \<and>
           probabilities r = py_dict (zip (aligned_labels clf labels (proba ! 0)) (proba ! 0)) \<and>
           af_tempo_variance (audio_features r) = tempo_variance_of lib beats sr"
  using assms unfolding predict_mood_body_def
  by (auto elim!: lib_bind_InrE exn_bind_InrE simp: getitem_def Let_def
      split: if_splits prod.splits option.splits)

lemma length_np_diff: "length (np_diff xs) = length xs - 1"
  by (simp add: np_diff_def)

lemma np_diff_Nil_iff: "np_diff xs = [] \<longleftrightarrow> length xs \<le> 1"
  using length_np_diff [of xs] by (metis length_0_conv diff_is_0_eq)

lemma length_frames_to_time: "length (frames_to_time lib frames sr) = length frames"
  by (simp add: frames_to_time_def)

lemma tempo_variance_of_eq:
  "tempo_variance_of lib beats sr =
     (if length beats < 2 then 0
      else np_std lib (np_diff (frames_to_time lib beats sr)) * 60)"
  by (auto simp: tempo_variance_of_def Let_def np_diff_Nil_iff length_frames_to_time)

text \<open>
  C10: in a result of \<^verbatim>\<open>predict_mood\<close>, \<^verbatim>\<open>tempo_variance\<close> is 0 when beat tracking found fewer
  than two beats; otherwise it is the standard deviation of the differences of consecutive
  beat times (the beat frames converted to seconds by \<^verbatim>\<open>frames_to_time\<close>), times 60.
\<close>

theorem predict_mood_tempo_variance:
  assumes "fst (predict_mood env lib st files p) = Inr r"
  shows "\<exists>y sr tempo beats.
           fst (load_audio env files p) = Inr (y, sr) \<and>
           beat_track lib y sr = Inr (tempo, beats) \<and>
           af_tempo_variance (audio_features r) =
             (if length beats < 2 then 0
              else np_std lib (np_diff (frames_to_time lib beats sr)) * 60)"
proof -
  from assms obtain y sr where la: "fst (load_audio env files p) = Inr (y, sr)"
    and body: "predict_mood_body lib st y sr = Inr r"
    by (rule predict_mood_InrE)
  from predict_mood_body_InrD [OF body] obtain tempo beats where
    bt: "beat_track lib y sr = Inr (tempo, beats)"
    and r: "af_tempo_variance (audio_features r) = tempo_variance_of lib beats sr"
    by blast
  from r have "af_tempo_variance (audio_features r) =
             (if length beats < 2 then 0
              else np_std lib (np_diff (frames_to_time lib beats sr)) * 60)"
    by (simp only: tempo_variance_of_eq)
  with la bt show ?thesis
    by blast
qed

lemma demo_three_beats_returns:
  "\<exists>r. fst (predict_mood env_ffmpeg_ok demo_lib_three_beats demo_state wav_fs ''a.wav'') = Inr r"
  by (simp add: predict_mood_def load_audio_def env_ffmpeg_ok_def wav_fs_def demo_decode_def
      predict_mood_body_def extract_features_from_audio_def demo_lib_three_beats_def demo_lib_def demo_state_def
      demo_classifier_def demo_scaler_def getitem_def SR_def upt_rec
      py_list_def Let_def)

theorem predict_mood_tempo_variance_witness:
  "fst (predict_mood env_ffmpeg_ok demo_lib_three_beats demo_state wav_fs ''a.wav'') =
     Inr (projr (fst (predict_mood env_ffmpeg_ok demo_lib_three_beats demo_state wav_fs ''a.wav''))) \<and>
   beat_track demo_lib_three_beats [1, 2] SR = Inr (120, [4, 6, 12]) \<and>
   af_tempo_variance (audio_features
     (projr (fst (predict_mood env_ffmpeg_ok demo_lib_three_beats demo_state wav_fs ''a.wav'')))) =
     pstd [1024 / 22050, 3072 / 22050] * 60"
proof -
  obtain r where r: "fst (predict_mood env_ffmpeg_ok demo_lib_three_beats demo_state wav_fs ''a.wav'') = Inr r"
    using demo_three_beats_returns by blast
  from predict_mood_tempo_variance [OF r] obtain y sr tempo beats where
    la: "fst (load_audio env_ffmpeg_ok wav_fs ''a.wav'') = Inr (y, sr)"
    and bt: "beat_track demo_lib_three_beats y sr = Inr (tempo, beats)"
    and tv: "af_tempo_variance (audio_features r) =
             (if length beats < 2 then 0
              else np_std demo_lib_three_beats
                     (np_diff (frames_to_time demo_lib_three_beats beats sr)) * 60)"
    by blast
  from la have sr: "sr = 22050"
    by (simp add: load_audio_def env_ffmpeg_ok_def wav_fs_def demo_decode_def SR_def)
  from bt have beats: "beats = [4, 6, 12]"
    by (simp add: demo_lib_three_beats_def demo_lib_def)
  from tv have "af_tempo_variance (audio_features r) = pstd [1024 / 22050, 3072 / 22050] * 60"
    unfolding beats sr
    by (simp add: demo_lib_three_beats_def demo_lib_def np_diff_def frames_to_time_def)
  moreover have "beat_track demo_lib_three_beats [1, 2] SR = Inr (120, [4, 6, 12])"
    by (simp add: demo_lib_three_beats_def demo_lib_def)
  ultimately show ?thesis using r by simp
qed

text \<open>
  C3, as stated, at a concrete input: the bundle's "classes" field names "calm" twice, so
  the resolved label list does; it has the length of the classifier's probability vector,
  which sums to 1, so the labels are not rebuilt. Python's \<^verbatim>\<open>dict\<close> keeps one entry per key:
  one probability is lost, the map has three entries for a vector of four, and its values
  sum to 0.9.
\<close>

theorem predict_mood_duplicate_label_counterexample:
  "load_module demo_pickle_load [MODEL_PATH ''/srv/app'' \<mapsto> [3]] ''/srv/app'' =
     Inr (state_duplicate_label, [(INFO, ''Loaded moods: %s'')]) \<and>
   fst (predict_mood env_ffmpeg_ok demo_lib state_duplicate_label wav_fs ''a.wav'') =
     Inr (projr (fst (predict_mood env_ffmpeg_ok demo_lib state_duplicate_label wav_fs ''a.wav''))) \<and>
   MOODS state_duplicate_label = PySeq [''calm'', ''calm'', ''happy'', ''sad''] \<and>
   clf_predict_proba demo_classifier [[120, 2, 3, 1/2, 6, 2, 3, 1, 3, 4, 0, 1, 1, 0, 0]] =
     Inr [[1/10, 2/10, 3/10, 4/10]] \<and>
   sum_list [1/10, 2/10, 3/10, 4/10 :: real] = 1 \<and>
   probabilities (projr (fst (predict_mood env_ffmpeg_ok demo_lib state_duplicate_label wav_fs ''a.wav''))) =
     [(''calm'', 2/10), (''happy'', 3/10), (''sad'', 4/10)] \<and>
   \<not> \<bar>sum_list (map snd (probabilities
       (projr (fst (predict_mood env_ffmpeg_ok demo_lib state_duplicate_label wav_fs ''a.wav''))))) - 1\<bar>
       \<le> 1 / 1000"
proof -
  have "fst (predict_mood env_ffmpeg_ok demo_lib state_duplicate_label wav_fs ''a.wav'') =
     Inr \<lparr> mood = ''happy'',
           probabilities = [(''calm'', 2/10), (''happy'', 3/10), (''sad'', 4/10)],
           audio_features = \<lparr> af_tempo = 120, af_tempo_variance = 0, af_energy = 2,
             af_energy_variance = 1, af_spectral_centroid = 3, af_spectral_bandwidth = 7,
             af_zero_crossing_rate = 1/2, af_valence = 3 / 11025, af_duration = 2 / 22050 \<rparr> \<rparr>"
    by (simp add: predict_mood_def load_audio_def env_ffmpeg_ok_def wav_fs_def demo_decode_def
      predict_mood_body_def extract_features_from_audio_def demo_lib_def state_duplicate_label_def
      demo_classifier_def demo_scaler_def getitem_def SR_def upt_rec tempo_variance_of_def
      frames_to_time_def py_list_def aligned_labels_def py_dict_def Let_def np_diff_def mean_def
      pstd_def)
  moreover
  have "load_module demo_pickle_load [MODEL_PATH ''/srv/app'' \<mapsto> [3]] ''/srv/app'' =
     Inr (state_duplicate_label, [(INFO, ''Loaded moods: %s'')])"
    by (simp add: load_module_def demo_pickle_load_def resolve_moods_def
        bundle_duplicate_label_def state_duplicate_label_def moods_from_bundle_def
        none_or_empty_list_def Let_def)
  ultimately show ?thesis
    by (simp add: state_duplicate_label_def demo_classifier_def)
qed

text \<open>With pairwise distinct keys, \<^verbatim>\<open>dict\<close> keeps every pair.\<close>

lemma dict_setitem_fresh:
  "k \<notin> fst ` set d \<Longrightarrow> dict_setitem d k v = d @ [(k, v)]"
  by (induction d) auto

lemma foldl_dict_setitem_distinct:
  "distinct (map fst (d @ kvs)) \<Longrightarrow>
   foldl (\<lambda>d kv. dict_setitem d (fst kv) (snd kv)) d kvs = d @ kvs"
proof (induction kvs arbitrary: d)
  case Nil
  then show ?case by simp
next
  case (Cons kv kvs)
  have fresh: "fst kv \<notin> fst ` set d" using Cons.prems by auto
  have "distinct (map fst ((d @ [kv]) @ kvs))" using Cons.prems by simp
  from Cons.IH [OF this] show ?case
    by (simp add: dict_setitem_fresh [OF fresh])
qed

lemma py_dict_distinct:
  "distinct (map fst kvs) \<Longrightarrow> py_dict kvs = kvs"
  using foldl_dict_setitem_distinct [of "[]" kvs] by (simp add: py_dict_def)

lemma py_dict_zip:
  assumes "distinct ls" and "length ls = length ps"
  shows "map fst (py_dict (zip ls ps)) = ls" and "map snd (py_dict (zip ls ps)) = ps"
proof -
  have "map fst (zip ls ps) = ls" using assms(2) by simp
  with assms(1) have "py_dict (zip ls ps) = zip ls ps"
    by (simp add: py_dict_distinct)
  with assms(2) show "map fst (py_dict (zip ls ps)) = ls"
    and "map snd (py_dict (zip ls ps)) = ps"
    by simp_all
qed

text \<open>
  C3, amended: in a result of \<^verbatim>\<open>predict_mood\<close> the map is the \<^verbatim>\<open>dict\<close> of the zip of a label
  list with the probability vector, which is the first row of what the classifier's
  \<^verbatim>\<open>predict_proba\<close> returns for the scaled feature vector of the decoded signal. The label
  list is the resolved list when its length equals that of the vector, and otherwise the
  classifier's own class list when the classifier has one (the resolved list when it has
  none). Whenever these labels are pairwise distinct and as many as the probabilities, the
  keys of the map are exactly these labels, in order, its values are exactly the
  probabilities, and the values sum to 1 within 1e-3 if the classifier's vector does.
\<close>

theorem predict_mood_probabilities:
  assumes "fst (predict_mood env lib st files p) = Inr r"
  shows "\<exists>y sr feats sc scaled clf proba labels ls.
           fst (load_audio env files p) = Inr (y, sr) \<and>
           extract_features_from_audio lib y sr = Inr feats \<and>
           scaler st = Some sc \<and> scaler_transform sc feats = Inr scaled \<and>
           classifier st = Some clf \<and>
           clf_predict_proba clf scaled = Inr proba \<and> proba \<noteq> [] \<and>
           py_list (MOODS st) = Inr labels \<and>
           ls = (if length (proba ! 0) \<noteq> length labels
                 then (case clf_classes clf of None \<Rightarrow> labels | Some raw \<Rightarrow> raw)
                 else labels) \<and>
           probabilities r = py_dict (zip ls (proba ! 0)) \<and>
           (distinct ls \<and> length ls = length (proba ! 0) \<longrightarrow>
              map fst (probabilities r) = ls \<and>
              map snd (probabilities r) = proba ! 0 \<and>
              (\<bar>sum_list (proba ! 0) - 1\<bar> \<le> 1 / 1000 \<longrightarrow>
                 \<bar>sum_list (map snd (probabilities r)) - 1\<bar> \<le> 1 / 1000))"
proof -
  from assms obtain y sr where la: "fst (load_audio env files p) = Inr (y, sr)"
    and body: "predict_mood_body lib st y sr = Inr r"
    by (rule predict_mood_InrE)
  from predict_mood_body_InrD [OF body] obtain feats sc scaled clf proba labels where
    f: "extract_features_from_audio lib y sr = Inr feats"
    and sc: "scaler st = Some sc" "scaler_transform sc feats = Inr scaled"
    and c: "classifier st = Some clf"
    and pp: "clf_predict_proba clf scaled = Inr proba" "proba \<noteq> []"
    and l: "py_list (MOODS st) = Inr labels"
    and pr: "probabilities r = py_dict (zip (aligned_labels clf labels (proba ! 0)) (proba ! 0))"
    by blast
  define ls where "ls = (if length (proba ! 0) \<noteq> length labels
                 then (case clf_classes clf of None \<Rightarrow> labels | Some raw \<Rightarrow> raw)
                 else labels)"
  have al: "aligned_labels clf labels (proba ! 0) = ls"
    by (simp add: aligned_labels_def ls_def)
  have pr': "probabilities r = py_dict (zip ls (proba ! 0))"
    using pr by (simp only: al)
  have "map fst (probabilities r) = ls \<and>
        map snd (probabilities r) = proba ! 0 \<and>
        (\<bar>sum_list (proba ! 0) - 1\<bar> \<le> 1 / 1000 \<longrightarrow>
           \<bar>sum_list (map snd (probabilities r)) - 1\<bar> \<le> 1 / 1000)"
    if "distinct ls" and "length ls = length (proba ! 0)"
    using py_dict_zip [OF that] by (simp add: pr')
  with la f sc c pp l pr' ls_def show ?thesis
    by blast
qed

lemma demo_state_eval:
  "fst (predict_mood env_ffmpeg_ok demo_lib demo_state wav_fs ''a.wav'') =
     Inr \<lparr> mood = ''happy'',
           probabilities = [(''calm'', 1/10), (''energetic'', 2/10), (''happy'', 3/10), (''sad'', 4/10)],
           audio_features = \<lparr> af_tempo = 120, af_tempo_variance = 0, af_energy = 2,
             af_energy_variance = 1, af_spectral_centroid = 3, af_spectral_bandwidth = 7,
             af_zero_crossing_rate = 1/2, af_valence = 3 / 11025, af_duration = 2 / 22050 \<rparr> \<rparr>"
  by (simp add: predict_mood_def load_audio_def env_ffmpeg_ok_def wav_fs_def demo_decode_def
      predict_mood_body_def extract_features_from_audio_def demo_lib_def demo_state_def
      demo_classifier_def demo_scaler_def getitem_def SR_def upt_rec tempo_variance_of_def
      frames_to_time_def py_list_def aligned_labels_def py_dict_def Let_def np_diff_def mean_def
      pstd_def)

theorem predict_mood_probabilities_witness:
  "fst (predict_mood env_ffmpeg_ok demo_lib demo_state wav_fs ''a.wav'') =
     Inr (projr (fst (predict_mood env_ffmpeg_ok demo_lib demo_state wav_fs ''a.wav''))) \<and>
   map fst (probabilities
     (projr (fst (predict_mood env_ffmpeg_ok demo_lib demo_state wav_fs ''a.wav'')))) =
     [''calm'', ''energetic'', ''happy'', ''sad''] \<and>
   map snd (probabilities
     (projr (fst (predict_mood env_ffmpeg_ok demo_lib demo_state wav_fs ''a.wav'')))) =
     [1/10, 2/10, 3/10, 4/10] \<and>
   \<bar>sum_list (map snd (probabilities
     (projr (fst (predict_mood env_ffmpeg_ok demo_lib demo_state wav_fs ''a.wav''))))) - 1\<bar>
     \<le> 1 / 1000"
proof -
  obtain r where r: "fst (predict_mood env_ffmpeg_ok demo_lib demo_state wav_fs ''a.wav'') = Inr r"
    using demo_state_eval by blast
  from predict_mood_probabilities [OF r] obtain clf scaled proba labels ls where
    c: "classifier demo_state = Some clf"
    and pp: "clf_predict_proba clf scaled = Inr proba"
    and l: "py_list (MOODS demo_state) = Inr labels"
    and ls: "ls = (if length (proba ! 0) \<noteq> length labels
                 then (case clf_classes clf of None \<Rightarrow> labels | Some raw \<Rightarrow> raw)
                 else labels)"
    and imp: "distinct ls \<and> length ls = length (proba ! 0) \<longrightarrow>
              map fst (probabilities r) = ls \<and>
              map snd (probabilities r) = proba ! 0 \<and>
              (\<bar>sum_list (proba ! 0) - 1\<bar> \<le> 1 / 1000 \<longrightarrow>
                 \<bar>sum_list (map snd (probabilities r)) - 1\<bar> \<le> 1 / 1000)"
    by blast
  from c have clf: "clf = demo_classifier" by (simp add: demo_state_def)
  from pp have proba: "proba = [[1/10, 2/10, 3/10, 4/10]]"
    by (auto simp: clf demo_classifier_def)
  from l have labels: "labels = [''calm'', ''energetic'', ''happy'', ''sad'']"
    by (simp add: demo_state_def py_list_def)
  from ls have ls': "ls = [''calm'', ''energetic'', ''happy'', ''sad'']"
    by (simp add: proba labels)
  from imp have "map fst (probabilities r) = [''calm'', ''energetic'', ''happy'', ''sad''] \<and>
     map snd (probabilities r) = [1/10, 2/10, 3/10, 4/10] \<and>
     \<bar>sum_list (map snd (probabilities r)) - 1\<bar> \<le> 1 / 1000"
    unfolding ls' proba by simp
  with r show ?thesis by simp
qed

section \<open>Properties of the model loading\<close>

text \<open>
  What the label resolution computes, level by level: a non-empty "classes" sequence is
  taken as it is; with no "classes" field a non-empty "moods" sequence is taken; with
  neither, the classifier's non-empty class list; and with none of the three the four
  default labels, together with a warning in the log. The function is total: it never
  raises.
\<close>

lemma resolve_moods_priority:
  "(b_classes b = PySeq (x # xs) \<longrightarrow> fst (resolve_moods b) = PySeq (x # xs)) \<and>
   (b_classes b = PyNone \<and> b_moods b = PySeq (x # xs) \<longrightarrow>
      fst (resolve_moods b) = PySeq (x # xs)) \<and>
   (b_classes b = PyNone \<and> none_or_empty_list (b_moods b) \<and>
    moods_from_classifier (b_model b) = PySeq (x # xs) \<longrightarrow>
      fst (resolve_moods b) = PySeq (x # xs)) \<and>
   (b_classes b = PyNone \<and> none_or_empty_list (b_moods b) \<and>
    none_or_empty_list (moods_from_classifier (b_model b)) \<longrightarrow>
      resolve_moods b =
        (PySeq default_moods,
         [(WARNING, ''Model moods not found in bundle; falling back to default labels %s''),
          (INFO, ''Loaded moods: %s'')]))"
  by (auto simp: resolve_moods_def moods_from_bundle_def none_or_empty_list_def Let_def)

text \<open>
  C2 at the failing input: the bundle has an empty "classes" list, a "moods" list of four
  labels and a classifier whose own classes are 0, 1, 2, 3. The first non-empty source is
  "moods", but the code only moves on to "moods" when "classes" is \<^verbatim>\<open>None\<close> (line 36),
  while the two later levels also treat an empty list as missing (lines 42 and 47): the
  resolved labels are the classifier's.
\<close>

theorem resolve_moods_empty_classes_skips_moods:
  "b_classes bundle_empty_classes = PySeq [] \<and>
   b_moods bundle_empty_classes = PySeq [''calm'', ''energetic'', ''happy'', ''sad''] \<and>
   resolve_moods bundle_empty_classes =
     (PySeq [''0'', ''1'', ''2'', ''3''], [(INFO, ''Loaded moods: %s'')])"
  by (simp add: resolve_moods_def bundle_empty_classes_def moods_from_bundle_def
      moods_from_classifier_def none_or_empty_list_def numeric_classifier_def Let_def)

text \<open>
  C4 at the failing input: with no file at \<^verbatim>\<open>MODEL_PATH\<close> the module initialisation ends in
  the FileNotFoundError of \<^verbatim>\<open>open\<close>, and with a file that does not unpickle in the
  exception of \<^verbatim>\<open>pickle.load\<close>; neither is caught and turned into a ModelLoadError.
\<close>

theorem load_module_missing_artifact:
  "load_module demo_pickle_load Map.empty ''/srv/app'' =
     Inl (Lib (LibExn ''FileNotFoundError'' ''No such file or directory'')) \<and>
   load_module demo_pickle_load [MODEL_PATH ''/srv/app'' \<mapsto> [9]] ''/srv/app'' =
     Inl (Lib (LibExn ''UnpicklingError'' ''invalid load key''))"
  by (simp add: load_module_def demo_pickle_load_def lib_bind_def)

text \<open>
  \<^verbatim>\<open>verify_model_moods\<close> itself, called with no argument on a list of labels, raises
  ModelLoadError exactly when one of the four canonical names is missing.
\<close>

lemma verify_model_moods_iff:
  "verify_model_moods (PySeq xs) None = Inl (ModelLoadError ''Model moods missing required labels'')
     \<longleftrightarrow> \<not> {''happy'', ''calm'', ''energetic'', ''sad''} \<subseteq> set xs"
  "verify_model_moods (PySeq xs) None = Inr True
     \<longleftrightarrow> {''happy'', ''calm'', ''energetic'', ''sad''} \<subseteq> set xs"
  by (simp_all add: verify_model_moods_def loaded_set_def)

text \<open>
  C5 at the failing input: the artifact holds a bundle whose labels are "major" and
  "minor". \<^verbatim>\<open>verify_model_moods\<close> would reject these labels, but nothing in the module
  initialisation (nor anywhere else in the repository) calls it: loading succeeds with
  the two labels.
\<close>

theorem load_module_skips_validation:
  "map_sum id (\<lambda>r. MOODS (fst r))
     (load_module demo_pickle_load [MODEL_PATH ''/srv/app'' \<mapsto> [2]] ''/srv/app'') =
     Inr (PySeq [''major'', ''minor'']) \<and>
   verify_model_moods (PySeq [''major'', ''minor'']) None =
     Inl (ModelLoadError ''Model moods missing required labels'')"
  by (simp add: load_module_def demo_pickle_load_def resolve_moods_def bundle_two_labels_def
      moods_from_bundle_def none_or_empty_list_def Let_def verify_model_moods_def loaded_set_def)

section \<open>Properties of the /predict endpoint\<close>

text \<open>Neither the decoder nor the pipeline behind it raises an \<^verbatim>\<open>HTTPException\<close>.\<close>

lemma is_http_simps [simp]: "is_http (Inl e) = http_exn e" "is_http (Inr v) = False"
  by (simp_all add: is_http_def)

lemma is_http_lib_bind:
  "is_http (lib_bind r f) = (case r of Inl e \<Rightarrow> False | Inr x \<Rightarrow> is_http (f x))"
  by (cases r) (simp_all add: lib_bind_def)

lemma is_http_exn_bind:
  "is_http (exn_bind r f) = (case r of Inl e \<Rightarrow> http_exn e | Inr x \<Rightarrow> is_http (f x))"
  by (cases r) (simp_all add: exn_bind_def)

lemma extract_not_http: "\<not> is_http (extract_features_from_audio lib y sr)"
  unfolding extract_features_from_audio_def
  by (simp add: is_http_lib_bind is_http_exn_bind getitem_def split: sum.splits prod.splits)

lemma py_list_not_http: "\<not> is_http (py_list v)"
  by (cases v) (simp_all add: py_list_def)

lemma not_httpD: "\<not> is_http r \<Longrightarrow> r = Inl e \<Longrightarrow> \<not> http_exn e"
  by simp

lemma lib_bind_Inr_not_http: "\<not> is_http (lib_bind r Inr)"
  by (simp add: is_http_lib_bind split: sum.splits)

lemma predict_mood_body_not_http: "\<not> is_http (predict_mood_body lib st y sr)"
  unfolding predict_mood_body_def
  by (auto simp: is_http_lib_bind is_http_exn_bind getitem_def Let_def
      dest: not_httpD [OF extract_not_http]
        not_httpD [OF py_list_not_http] not_httpD [OF lib_bind_Inr_not_http]
      split: sum.splits prod.splits option.splits)

lemma load_audio_not_http: "\<not> is_http (fst (load_audio env files p))"
  by (auto simp: load_audio_def Let_def split: sum.splits)

lemma predict_mood_not_http: "\<not> is_http (fst (predict_mood env lib st files p))"
proof (cases "fst (load_audio env files p)")
  case (Inl e)
  with load_audio_not_http [of env files p] show ?thesis
    by (simp add: predict_mood_def)
next
  case (Inr sig)
  then show ?thesis
    by (simp add: predict_mood_def predict_mood_body_not_http)
qed

lemma to_http_400: "\<not> is_http r \<Longrightarrow> to_http r \<noteq> Inl (HTTPException 400 d)"
  by (cases r rule: to_http.cases) simp_all

text \<open>
  C8: the three tests of the handler together say that the declared content type starts
  with "audio/", or is "application/octet-stream", or the lower-cased file name ends in
  one of the five extensions. The handler answers 400 "Unsupported audio format" exactly
  when this fails, and then nothing has been written or decoded: the only effect is the
  removal of the staging path \<^verbatim>\<open>temp_audio\<close> in the \<^verbatim>\<open>finally\<close> clause. Otherwise the upload is
  staged and handed to \<^verbatim>\<open>predict_mood\<close>.
\<close>

theorem predict_rejects_iff:
  "((is_audio_mime f \<or> is_octet f \<or> has_audio_ext f) \<longleftrightarrow>
      (\<exists>ct. content_type f = Some ct \<and> prefix ''audio/'' ct) \<or>
      content_type f = Some ''application/octet-stream'' \<or>
      suffix ''.wav'' (py_lower (filename f)) \<or> suffix ''.mp3'' (py_lower (filename f)) \<or>
      suffix ''.ogg'' (py_lower (filename f)) \<or> suffix ''.flac'' (py_lower (filename f)) \<or>
      suffix ''.m4a'' (py_lower (filename f))) \<and>
   (fst (predict env lib st files f) = Inl (HTTPException 400 ''Unsupported audio format'') \<longleftrightarrow>
      \<not> (is_audio_mime f \<or> is_octet f \<or> has_audio_ext f)) \<and>
   (\<not> (is_audio_mime f \<or> is_octet f \<or> has_audio_ext f) \<longrightarrow>
      snd (predict env lib st files f) = files(''temp_audio'' := None)) \<and>
   (is_audio_mime f \<or> is_octet f \<or> has_audio_ext f \<longrightarrow>
      fst (predict env lib st files f) =
        to_http (fst (predict_mood env lib st
                        (files(''temp_audio'' \<mapsto> file_content f)) ''temp_audio'')))"
proof -
  have acc: "(is_audio_mime f \<or> is_octet f \<or> has_audio_ext f) \<longleftrightarrow>
      (\<exists>ct. content_type f = Some ct \<and> prefix ''audio/'' ct) \<or>
      content_type f = Some ''application/octet-stream'' \<or>
      suffix ''.wav'' (py_lower (filename f)) \<or> suffix ''.mp3'' (py_lower (filename f)) \<or>
      suffix ''.ogg'' (py_lower (filename f)) \<or> suffix ''.flac'' (py_lower (filename f)) \<or>
      suffix ''.m4a'' (py_lower (filename f))"
    by (auto simp: is_audio_mime_def is_octet_def has_audio_ext_def audio_exts_def
        split: option.splits)
  have rej: "fst (predict env lib st files f) =
               Inl (HTTPException 400 ''Unsupported audio format'') \<longleftrightarrow>
             \<not> (is_audio_mime f \<or> is_octet f \<or> has_audio_ext f)"
    using to_http_400 [OF predict_mood_not_http]
    by (auto simp: predict_def Let_def)
  have eff: "\<not> (is_audio_mime f \<or> is_octet f \<or> has_audio_ext f) \<longrightarrow>
      snd (predict env lib st files f) = files(''temp_audio'' := None)"
    by (simp add: predict_def Let_def)
  have run: "is_audio_mime f \<or> is_octet f \<or> has_audio_ext f \<longrightarrow>
      fst (predict env lib st files f) =
        to_http (fst (predict_mood env lib st
                        (files(''temp_audio'' \<mapsto> file_content f)) ''temp_audio''))"
    by (auto simp: predict_def Let_def)
  from acc rej eff run show ?thesis
    by blast
qed

theorem predict_rejects_iff_witness:
  "fst (predict env_ffmpeg_ok demo_lib demo_state wav_fs upload_notes) =
     Inl (HTTPException 400 ''Unsupported audio format'') \<and>
   snd (predict env_ffmpeg_ok demo_lib demo_state wav_fs upload_notes) ''a.wav'' = Some [5] \<and>
   fst (predict env_ffmpeg_ok demo_lib demo_state wav_fs upload_song) \<noteq>
     Inl (HTTPException 400 ''Unsupported audio format'')"
proof -
  have rejected: "\<not> (is_audio_mime upload_notes \<or> is_octet upload_notes \<or> has_audio_ext upload_notes)"
    by (simp add: is_audio_mime_def is_octet_def has_audio_ext_def audio_exts_def
        upload_notes_def py_lower_def lower_char_def suffix_to_prefix)
  have accepted: "has_audio_ext upload_song"
    by (simp add: has_audio_ext_def audio_exts_def upload_song_def py_lower_def lower_char_def
        suffix_to_prefix)
  from predict_rejects_iff [of upload_notes env_ffmpeg_ok demo_lib demo_state wav_fs] rejected
  have "fst (predict env_ffmpeg_ok demo_lib demo_state wav_fs upload_notes) =
          Inl (HTTPException 400 ''Unsupported audio format'')"
    and "snd (predict env_ffmpeg_ok demo_lib demo_state wav_fs upload_notes) =
          wav_fs(''temp_audio'' := None)"
    by blast+
  moreover
  from predict_rejects_iff [of upload_song env_ffmpeg_ok demo_lib demo_state wav_fs] accepted
  have "fst (predict env_ffmpeg_ok demo_lib demo_state wav_fs upload_song) \<noteq>
          Inl (HTTPException 400 ''Unsupported audio format'')"
    by blast
  ultimately show ?thesis
    by (simp add: wav_fs_def)
qed

end
